theory Spec2Isabelle
  imports Main "HOL-Library.Sublist"
begin

section \<open>Table-of-contents nodes\<close>

text \<open>
  The navigation tree handed to the \<^verbatim>\<open>TOCNode\<close> component
  (\<^verbatim>\<open>src/components/Sidenav/TOCNode.js\<close>). A node object carries \<^verbatim>\<open>title\<close>,
  \<^verbatim>\<open>slug\<close>, \<^verbatim>\<open>url\<close>, \<^verbatim>\<open>children\<close> and \<^verbatim>\<open>options\<close>; \<^verbatim>\<open>slug\<close>, \<^verbatim>\<open>url\<close>
  and \<^verbatim>\<open>options\<close> are optional in the component's prop types, so an absent
  (\<^verbatim>\<open>undefined\<close>) one is \<open>None\<close>. The two flags of \<^verbatim>\<open>options\<close> are read
  only through \<^verbatim>\<open>!!\<close>, so an absent flag is \<open>False\<close>.
\<close>

record toc_options =
  drawer :: bool
  tocicon :: bool

datatype node =
  Node (title: string) (slug: "string option") (url: "string option")
       (children: "node list") (options: "toc_options option")

text \<open>
  JavaScript's \<^verbatim>\<open>a || b\<close> on optional strings: \<^verbatim>\<open>undefined\<close> and the empty
  string are falsy, every other string is truthy.
\<close>

definition truthy :: "string option \<Rightarrow> bool" where
  "truthy v = (case v of None \<Rightarrow> False | Some s \<Rightarrow> s \<noteq> [])"

definition js_or :: "string option \<Rightarrow> string option \<Rightarrow> string option" where
  "js_or a b = (if truthy a then a else b)"

text \<open>\<^verbatim>\<open>const target = slug || url;\<close>\<close>

definition target :: "node \<Rightarrow> string option" where
  "target n = js_or (slug n) (url n)"

text \<open>\<^verbatim>\<open>const hasChildren = !!children.length;\<close>\<close>

definition hasChildren :: "node \<Rightarrow> bool" where
  "hasChildren n = (children n \<noteq> [])"

text \<open>
  \<^verbatim>\<open>const { ..., options = {} } = node; const isDrawer = !!(options && options.drawer);\<close>
  and \<^verbatim>\<open>const isTocIcon = !!options.tocicon;\<close>
\<close>

definition isDrawer :: "node \<Rightarrow> bool" where
  "isDrawer n = (case options n of None \<Rightarrow> False | Some opts \<Rightarrow> drawer opts)"

definition isTocIcon :: "node \<Rightarrow> bool" where
  "isTocIcon n = (case options n of None \<Rightarrow> False | Some opts \<Rightarrow> tocicon opts)"

text \<open>All nodes strictly below a node, at any depth, in render order.\<close>

fun descendants :: "node \<Rightarrow> node list" where
  "descendants (Node t s u cs opts) = concat (map (\<lambda>c. c # descendants c) cs)"

subsection \<open>The two predicates\<close>

text \<open>
  Modelled from the spec: \<^verbatim>\<open>utils/is-active-toc-node\<close> is imported by the component
  but its source is not available. The specification (4.2) describes it as a pure
  function that, "given the current active-section identifier, a node's target, and its
  children, returns true iff the target matches exactly OR any node in the subtree
  (applied recursively, unbounded depth) matches". The second argument is whatever the
  caller passes; for a node of the subtree the target is the one the component computes
  for that node, \<^verbatim>\<open>slug || url\<close>.
\<close>

function isActiveTocNode :: "string \<Rightarrow> string option \<Rightarrow> node list \<Rightarrow> bool" where
  "isActiveTocNode currentUrl tgt cs =
     (tgt = Some currentUrl \<or> (\<exists>c \<in> set cs. isActiveTocNode currentUrl (target c) (children c)))"
  by pat_completeness auto

lemma size_children_less: "size_list size (children c) < size c"
  by (cases c) simp

lemma size_children_member: "c \<in> set cs \<Longrightarrow> size_list size (children c) < size_list size cs"
  using size_children_less [of c] size_list_estimation' [of c cs "size c" size]
  by simp

termination isActiveTocNode
  by (relation "measure (\<lambda>(a, t, cs). size_list size cs)") (auto simp: size_children_member)

declare isActiveTocNode.simps [simp del]

text \<open>
  Modelled from the spec: \<^verbatim>\<open>utils/is-selected-toc-node\<close> is imported by the component
  but its source is not available. The specification (4.3): "Pure function: exact match
  only, no descendant search."
\<close>

definition isSelectedTocNode :: "string \<Rightarrow> string option \<Rightarrow> bool" where
  "isSelectedTocNode currentUrl tgt = (tgt = Some currentUrl)"


section \<open>The TOCNode component\<close>

text \<open>
  The component's props, \<^verbatim>\<open>({ activeSection, handleClick, level = BASE_NODE_LEVEL, node })\<close>.
  The callback is opaque (a type parameter); \<^verbatim>\<open>level\<close> is a JavaScript number that the
  component only increments by one, read here as an integer, and \<open>None\<close> is an absent
  \<^verbatim>\<open>level\<close>, which takes the default.
\<close>

record 'cb props =
  activeSection :: string
  handleClick :: 'cb
  level :: "int option"
  node :: node

definition BASE_NODE_LEVEL :: int where
  "BASE_NODE_LEVEL = 1"

definition levelOf :: "'cb props \<Rightarrow> int" where
  "levelOf p = (case level p of None \<Rightarrow> BASE_NODE_LEVEL | Some l \<Rightarrow> l)"

text \<open>
  \<^verbatim>\<open>const isActive = isActiveTocNode(activeSection, slug, children);\<close> and
  \<^verbatim>\<open>const isSelected = isSelectedTocNode(activeSection, slug);\<close>: both predicates
  receive the node's \<^verbatim>\<open>slug\<close>, not \<^verbatim>\<open>target\<close>.
\<close>

definition isActive :: "'cb props \<Rightarrow> bool" where
  "isActive p = isActiveTocNode (activeSection p) (slug (node p)) (children (node p))"

definition isSelected :: "'cb props \<Rightarrow> bool" where
  "isSelected p = isSelectedTocNode (activeSection p) (slug (node p))"

subsection \<open>Hook state\<close>

text \<open>
  The state React keeps for one mounted instance: the two \<^verbatim>\<open>useState\<close> cells and
  the dependency array of the last run of the \<^verbatim>\<open>useEffect\<close> (\<open>None\<close> before
  its first run). The version of the component in \<^verbatim>\<open>part_000\<close> has no \<^verbatim>\<open>isHovered\<close>
  cell; there the field is never read or written.
\<close>

record tocnode_state =
  isHovered :: bool
  isOpen :: bool
  effectDeps :: "(bool \<times> string option) option"

text \<open>\<^verbatim>\<open>[isActive, isDrawer ? activeSection : null]\<close>, with \<open>None\<close> for \<^verbatim>\<open>null\<close>.\<close>

definition depsOf :: "'cb props \<Rightarrow> bool \<times> string option" where
  "depsOf p = (isActive p, if isDrawer (node p) then Some (activeSection p) else None)"

text \<open>
  \<^verbatim>\<open>useEffect(() => { setIsOpen(isActive); }, [...])\<close>: after a render the effect runs
  when it has never run or when a dependency differs from the one of its last run.
\<close>

definition useEffect :: "'cb props \<Rightarrow> tocnode_state \<Rightarrow> tocnode_state" where
  "useEffect p st =
     (if effectDeps st = Some (depsOf p) then st
      else st\<lparr>isOpen := isActive p, effectDeps := Some (depsOf p)\<rparr>)"

text \<open>
  Mounting: \<^verbatim>\<open>useState(false)\<close>, \<^verbatim>\<open>useState(isActive)\<close>, then the first run of the
  effect. A later render with new props keeps the cells and runs the effect again.
\<close>

definition useState :: "'cb props \<Rightarrow> tocnode_state" where
  "useState p = \<lparr>isHovered = False, isOpen = isActive p, effectDeps = None\<rparr>"

definition mount :: "'cb props \<Rightarrow> tocnode_state" where
  "mount p = useEffect p (useState p)"

definition rerender :: "'cb props \<Rightarrow> tocnode_state \<Rightarrow> tocnode_state" where
  "rerender p st = useEffect p st"

subsection \<open>Rendered elements\<close>

text \<open>
  \<^verbatim>\<open>NodeLink\<close> returns one of two shapes of \<^verbatim>\<open>SideNavItem\<close>: a plain item whose
  \<^verbatim>\<open>onClick\<close> is the closure \<^verbatim>\<open>() => { setIsOpen(!isOpen); }\<close> (kept as the value
  it will pass to \<^verbatim>\<open>setIsOpen\<close>), or an item rendered \<^verbatim>\<open>as={Link}\<close> with \<^verbatim>\<open>to\<close>,
  \<^verbatim>\<open>active\<close> and \<^verbatim>\<open>onClick={handleClick}\<close>. Both carry the level used for the
  indentation, the optional cloud icon and the title. The fields of \<open>SideNavItem\<close> are,
  in order: the level, the value the closure passes to \<^verbatim>\<open>setIsOpen\<close>, the icon, the
  title; those of \<open>SideNavItemLink\<close>: \<^verbatim>\<open>to\<close>, \<^verbatim>\<open>active\<close>, the level, \<^verbatim>\<open>onClick\<close>,
  the icon, the title. The icon is the cloud with its tooltip (and whether the tooltip is
  open) in \<^verbatim>\<open>TOCNode.js\<close>, the imported \<^verbatim>\<open>SyncCloud\<close> component in \<^verbatim>\<open>part_000\<close>.
\<close>

datatype icon = SyncCloudTooltip bool | SyncCloudImported

datatype 'cb sideNavItem =
    SideNavItem int bool "icon option" string
  | SideNavItemLink "string option" bool int 'cb "icon option" string

text \<open>\<^verbatim>\<open>NodeLink\<close> of \<^verbatim>\<open>src/components/Sidenav/TOCNode.js\<close>, four branches in order.\<close>

definition NodeLink :: "'cb props \<Rightarrow> tocnode_state \<Rightarrow> 'cb sideNavItem" where
  "NodeLink p st =
     (let n = node p in
      if isTocIcon n \<and> isDrawer n \<and> hasChildren n then
        SideNavItem (levelOf p) (\<not> isOpen st) (Some (SyncCloudTooltip (isHovered st))) (title n)
      else if isDrawer n \<and> hasChildren n then
        SideNavItem (levelOf p) (\<not> isOpen st) None (title n)
      else if isTocIcon n then
        SideNavItemLink (target n) (isSelected p) (levelOf p) (handleClick p)
          (Some (SyncCloudTooltip (isHovered st))) (title n)
      else
        SideNavItemLink (target n) (isSelected p) (levelOf p) (handleClick p) None (title n))"

text \<open>\<^verbatim>\<open>NodeLink\<close> of the version in \<^verbatim>\<open>part_000\<close>, two branches.\<close>

definition NodeLink_part_000 :: "'cb props \<Rightarrow> tocnode_state \<Rightarrow> 'cb sideNavItem" where
  "NodeLink_part_000 p st =
     (let n = node p in
      if isDrawer n \<and> hasChildren n then
        SideNavItem (levelOf p) (\<not> isOpen st)
          (if isTocIcon n then Some SyncCloudImported else None) (title n)
      else
        SideNavItemLink (target n) (isSelected p) (levelOf p) (handleClick p)
          (if isTocIcon n then Some SyncCloudImported else None) (title n))"

text \<open>
  What the component returns: the \<^verbatim>\<open>NodeLink\<close> followed by
  \<^verbatim>\<open>isOpen && children.map((c) => <TOCNode ... key={c.slug || c.url} />)\<close>.
  The second part is \<open>None\<close> when \<^verbatim>\<open>isOpen\<close> is false (React renders nothing for
  \<^verbatim>\<open>false\<close>), else the child elements in order, each a key and the props it is given.
\<close>

record 'cb tocnode_view =
  nodeLink :: "'cb sideNavItem"
  childNodes :: "(string option \<times> 'cb props) list option"

definition childElement :: "'cb props \<Rightarrow> node \<Rightarrow> string option \<times> 'cb props" where
  "childElement p c =
     (js_or (slug c) (url c),
      \<lparr>activeSection = activeSection p, handleClick = handleClick p,
       level = Some (levelOf p + 1), node = c\<rparr>)"

definition TOCNode :: "'cb props \<Rightarrow> tocnode_state \<Rightarrow> 'cb tocnode_view" where
  "TOCNode p st =
     \<lparr>nodeLink = NodeLink p st,
      childNodes = (if isOpen st then Some (map (childElement p) (children (node p))) else None)\<rparr>"

definition TOCNode_part_000 :: "'cb props \<Rightarrow> tocnode_state \<Rightarrow> 'cb tocnode_view" where
  "TOCNode_part_000 p st =
     \<lparr>nodeLink = NodeLink_part_000 p st,
      childNodes = (if isOpen st then Some (map (childElement p) (children (node p))) else None)\<rparr>"


subsection \<open>User interaction\<close>

text \<open>
  Modelled from the spec: the sources of the \<^verbatim>\<open>Link\<close> component (\<^verbatim>\<open>../Link\<close>) and of
  the library's \<^verbatim>\<open>SideNavItem\<close> are not available. The specification (4.1, step 5) gives what
  a click does: on the toggle control "clicking flips local isOpen; never navigates";
  on the link "clicking invokes onClick and performs navigation". So a click on the plain
  item runs its closure, and a click on the item rendered as a \<^verbatim>\<open>Link\<close> invokes the
  callback it was given and navigates to its \<^verbatim>\<open>to\<close>. The effects of a click that
  leave the component are returned as a list, in order.
\<close>

datatype 'cb effect = Invoke 'cb | Navigate "string option"

fun click :: "'cb sideNavItem \<Rightarrow> tocnode_state \<Rightarrow> tocnode_state \<times> 'cb effect list" where
  "click (SideNavItem lv b ic t) st = (st\<lparr>isOpen := b\<rparr>, [])"
| "click (SideNavItemLink tgt act lv cb ic t) st = (st, [Invoke cb, Navigate tgt])"

text \<open>
  \<^verbatim>\<open>onMouseEnter={() => setIsHovered(true)} onMouseLeave={() => setIsHovered(false)}\<close>
  on the cloud icon with the tooltip; the imported \<^verbatim>\<open>SyncCloud\<close> of \<^verbatim>\<open>part_000\<close> is
  given no handler.
\<close>

fun hover :: "bool \<Rightarrow> 'cb sideNavItem \<Rightarrow> tocnode_state \<Rightarrow> tocnode_state" where
  "hover h (SideNavItem lv b (Some (SyncCloudTooltip x)) t) st = st\<lparr>isHovered := h\<rparr>"
| "hover h (SideNavItemLink tgt act lv cb (Some (SyncCloudTooltip x)) t) st = st\<lparr>isHovered := h\<rparr>"
| "hover h item st = st"

text \<open>
  The life of one mounted instance: the three triggers of the specification (section 5)
  after the initial render, a user click, a hover, or a new \<^verbatim>\<open>activeSection\<close> from the
  parent. Each is followed by a render, hence by the effect. The \<^verbatim>\<open>NodeLink\<close> in use
  is a parameter, so that both versions of the component run the same way.
\<close>

datatype event = Click | MouseEnter | MouseLeave | NewActiveSection string

fun step ::
  "('cb props \<Rightarrow> tocnode_state \<Rightarrow> 'cb sideNavItem) \<Rightarrow> event \<Rightarrow>
   'cb props \<times> tocnode_state \<Rightarrow> 'cb props \<times> tocnode_state" where
  "step nl Click (p, st) = (p, rerender p (fst (click (nl p st) st)))"
| "step nl MouseEnter (p, st) = (p, rerender p (hover True (nl p st) st))"
| "step nl MouseLeave (p, st) = (p, rerender p (hover False (nl p st) st))"
| "step nl (NewActiveSection a) (p, st) =
     (p\<lparr>activeSection := a\<rparr>, rerender (p\<lparr>activeSection := a\<rparr>) st)"

fun run ::
  "('cb props \<Rightarrow> tocnode_state \<Rightarrow> 'cb sideNavItem) \<Rightarrow> event list \<Rightarrow>
   'cb props \<times> tocnode_state \<Rightarrow> 'cb props \<times> tocnode_state" where
  "run nl [] c = c"
| "run nl (e # es) c = run nl es (step nl e c)"

text \<open>
  The \<^verbatim>\<open>active\<close> prop of the rendered item; the plain item is given none, which the
  library reads as not active.
\<close>

fun activeProp :: "'cb sideNavItem \<Rightarrow> bool" where
  "activeProp (SideNavItem lv b ic t) = False"
| "activeProp (SideNavItemLink tgt act lv cb ic t) = act"

text \<open>
  The invariant of a mounted instance between events: the effect has run for the current
  props, and a node that is not a drawer (whose click never writes \<^verbatim>\<open>isOpen\<close>) is
  open exactly when it is active.
\<close>

definition synced :: "'cb props \<times> tocnode_state \<Rightarrow> bool" where
  "synced c = (case c of (p, st) \<Rightarrow>
     effectDeps st = Some (depsOf p) \<and> (\<not> isDrawer (node p) \<longrightarrow> isOpen st = isActive p))"

section \<open>Search results: highlighting the search term\<close>

text \<open>
  \<^verbatim>\<open>escapeRegExp\<close> and \<^verbatim>\<open>highlightSearchTerm\<close> of the search result component
  (\<^verbatim>\<open>part_001\<close>). Strings are lists of characters. The regular expressions involved are
  JavaScript's; what is needed of the language's \<^verbatim>\<open>RegExp\<close> is written out below.
  The colour \<^verbatim>\<open>palette.yellow.light2\<close> of the component library is a parameter.
\<close>

definition backslash :: char where
  "backslash = CHR 0x5C"



text \<open>
  ECMAScript's \<^verbatim>\<open>SyntaxCharacter\<close>, the characters with a meaning in a pattern:
  \<^verbatim>\<open>^ $ \ . * + ? ( ) [ ] { } |\<close>.
\<close>

definition syntaxCharacter :: "char \<Rightarrow> bool" where
  "syntaxCharacter c \<longleftrightarrow>
     c \<in> set [CHR ''^'', CHR ''$'', backslash, CHR ''.'', CHR ''*'', CHR ''+'', CHR ''?'',
              CHR ''('', CHR '')'', CHR ''['', CHR '']'', CHR ''{'', CHR ''}'', CHR ''|'']"

text \<open>
  \<^verbatim>\<open>new RegExp(pattern, 'gi')\<close>, on the patterns that are a sequence of literal atoms:
  a character that is not a syntax character stands for itself (\<^verbatim>\<open>PatternCharacter\<close>),
  and a backslash followed by a syntax character stands for that character
  (\<^verbatim>\<open>IdentityEscape\<close>). The result is the string the pattern spells. Any other pattern
  (an unescaped syntax character, another escape, a trailing backslash) is a regular
  expression proper or a syntax error, whose meaning is not modelled: \<open>None\<close>.
\<close>

fun literalPattern :: "string \<Rightarrow> string option" where
  "literalPattern [] = Some []"
| "literalPattern [c] = (if syntaxCharacter c then None else Some [c])"
| "literalPattern (c # d # cs) =
     (if c = backslash then
        (if syntaxCharacter d then map_option ((#) d) (literalPattern cs) else None)
      else if syntaxCharacter c then None
      else map_option ((#) c) (literalPattern (d # cs)))"



text \<open>
  The matches of a global (\<^verbatim>\<open>g\<close>) literal pattern in a text, as \<^verbatim>\<open>String.prototype.replace\<close>
  collects them: the search runs from left to right; a match is taken at the first
  position where the pattern matches, and the search goes on after it; after an empty
  match the search moves one character forward, so that character is not part of a match.
  The text is returned cut into matches and the characters between them.
\<close>

datatype segment = Matched string | Unmatched char






fun replaced :: "(string \<Rightarrow> string) \<Rightarrow> segment \<Rightarrow> string" where
  "replaced f (Matched m) = f m"
| "replaced f (Unmatched c) = [c]"





subsection \<open>Sanitizing\<close>

text \<open>
  \<^verbatim>\<open>sanitizePreviewHtml\<close> passes the text and a fixed options object to the
  \<^verbatim>\<open>sanitize-html\<close> library. The library is not part of the repository: it is a
  parameter here, and nothing is derived about what it returns.
\<close>

record sanitize_options =
  allowedTags :: "string list"
  allowedAttributes :: "(string \<times> string list) list"
  allowedStyles :: "(string \<times> (string \<times> (string \<times> string) list) list) list"

definition sanitizePreviewHtml ::
  "(string \<Rightarrow> sanitize_options \<Rightarrow> string) \<Rightarrow> string \<Rightarrow> string \<Rightarrow> string" where
  "sanitizePreviewHtml sanitizeHtml light2 text =
     sanitizeHtml text
       \<lparr>allowedTags = [''span''],
        allowedAttributes = [(''span'', [''style''])],
        allowedStyles =
          [(''span'', [(''background-color'', [(''^'' @ light2 @ ''$'', ''i'')])])]\<rparr>"

section \<open>The version dropdown\<close>

text \<open>
  \<^verbatim>\<open>createVersionLabel\<close> and the opening of \<^verbatim>\<open>VersionDropdown\<close>, from the second
  component of \<^verbatim>\<open>src/components/Sidenav/TOCNode.js\<close>. A branch and a group have the
  fields of the component's prop types; an optional string that is absent is \<open>None\<close>.
  \<^verbatim>\<open>sharedSlugPrefix\<close> of a group is read by the component and taken to be a string.
\<close>

record branch =
  gitBranchName :: string
  versionSelectorLabel :: "string option"
  urlSlug :: "string option"
  active :: bool

record branch_group =
  groupLabel :: "string option"
  sharedSlugPrefix :: string
  includedBranches :: "string list"

datatype js_error = TypeError | ReferenceError

text \<open>\<^verbatim>\<open>String.prototype.includes\<close>: the argument occurs somewhere in the string.\<close>

fun str_includes :: "string \<Rightarrow> string \<Rightarrow> bool" where
  "str_includes [] sub = (sub = [])"
| "str_includes (c # cs) sub = (prefix sub (c # cs) \<or> str_includes cs sub)"

subsection \<open>Version labels\<close>

text \<open>The class \<^verbatim>\<open>\D\<close> is every character but the ten decimal digits.\<close>

definition isDigit :: "char \<Rightarrow> bool" where
  "isDigit c \<longleftrightarrow> c \<in> set ''0123456789''"

text \<open>
  \<^verbatim>\<open>label.replace(/^\D+/g, '')\<close>. Without the \<^verbatim>\<open>m\<close> flag \<^verbatim>\<open>^\<close> holds at index 0
  only, and \<^verbatim>\<open>\D+\<close> takes the longest run of non-digits there, which must have at least
  one character. With a match the run is replaced by the empty string; the \<^verbatim>\<open>g\<close> flag
  then searches on from the end of the run, where \<^verbatim>\<open>^\<close> cannot hold. Without a match
  the label is returned as it is.
\<close>

definition replaceLeadingNonDigits :: "string \<Rightarrow> string" where
  "replaceLeadingNonDigits label =
     (let run = takeWhile (\<lambda>c. \<not> isDigit c) label
      in if run = [] then label else drop (length run) label)"

text \<open>
  \<^verbatim>\<open>const createVersionLabel = (urlSlug = '', gitBranchName = '') => { ... }\<close>.
  An absent argument takes the default \<^verbatim>\<open>''\<close>; the empty string is the only falsy
  string. The \<^verbatim>\<open>console.warn\<close> of the first branch only logs.
\<close>

definition createVersionLabel :: "string option \<Rightarrow> string option \<Rightarrow> string" where
  "createVersionLabel urlSlugArg gitBranchNameArg =
     (let urlSlug = (case urlSlugArg of None \<Rightarrow> [] | Some s \<Rightarrow> s);
          gitBranchName = (case gitBranchNameArg of None \<Rightarrow> [] | Some s \<Rightarrow> s)
      in if urlSlug = [] \<and> gitBranchName = [] then ''Version Name Unknown''
         else
           let label = (if urlSlug \<noteq> [] then urlSlug else gitBranchName);
               numeric_label = replaceLeadingNonDigits label
           in if numeric_label \<noteq> [] then ''Version '' @ numeric_label else label)"

text \<open>
  \<^verbatim>\<open>branch['versionSelectorLabel'] || createVersionLabel(branch['urlSlug'], branch['gitBranchName'])\<close>;
  the warning for an inactive branch only logs.
\<close>

definition getUILabel :: "branch \<Rightarrow> string" where
  "getUILabel b =
     (case versionSelectorLabel b of
        Some l \<Rightarrow> if l \<noteq> [] then l else createVersionLabel (urlSlug b) (Some (gitBranchName b))
      | None \<Rightarrow> createVersionLabel (urlSlug b) (Some (gitBranchName b)))"

subsection \<open>The guard of the component\<close>

text \<open>
  The filtering that opens \<^verbatim>\<open>VersionDropdown\<close>:
  \<^verbatim>\<open>
  if (project === 'realm' && slug.includes('sdk/')) {
    groups = groups.filter((g) => slug.includes(g['sharedSlugPrefix']));
    if (groups) {
      branches = branches.filter((b) => groups[0]['includedBranches'].includes(b['gitBranchName']));
    }
  }
  \<close>
  An array is truthy even when empty, so the inner \<^verbatim>\<open>if\<close> is always taken. The callback
  of the second \<^verbatim>\<open>filter\<close> reads \<^verbatim>\<open>groups[0]\<close>; when no group is left that is
  \<^verbatim>\<open>undefined\<close> and reading its property throws a \<^verbatim>\<open>TypeError\<close>, on the first branch
  the callback is called for. With no branch the callback is never called.
\<close>

definition filterRealmSdk ::
  "string \<Rightarrow> string \<Rightarrow> branch list \<Rightarrow> branch_group list \<Rightarrow>
   js_error + (branch list \<times> branch_group list)" where
  "filterRealmSdk project pageSlug branches groups =
     (if project = ''realm'' \<and> str_includes pageSlug ''sdk/'' then
        (let groups' = filter (\<lambda>g. str_includes pageSlug (sharedSlugPrefix g)) groups
         in case branches of
              [] \<Rightarrow> Inr ([], groups')
            | b # bs \<Rightarrow>
                (case groups' of
                   [] \<Rightarrow> Inl TypeError
                 | g0 # gs \<Rightarrow>
                     Inr (filter (\<lambda>b. gitBranchName b \<in> set (includedBranches g0)) branches,
                          groups')))
      else Inr (branches, groups))"

text \<open>
  \<^verbatim>\<open>VersionDropdown\<close> up to its guard,
  \<^verbatim>\<open>if (branches.length < 2) { console.warn(...); return null; }\<close>.
  \<^verbatim>\<open>project\<close> comes from the site metadata; \<open>pageSlug\<close> is the prop \<^verbatim>\<open>slug\<close>. The result \<open>None\<close> is \<^verbatim>\<open>null\<close>: nothing
  is rendered. What follows the guard (the \<^verbatim>\<open>StyledSelect\<close> element, the only holder of
  the \<^verbatim>\<open>navigate\<close> handler) is taken as a parameter \<open>body\<close> of the filtered branches and
  groups: it calls \<^verbatim>\<open>groupBranches\<close>, \<^verbatim>\<open>generatePathPrefix\<close>, \<^verbatim>\<open>normalizePath\<close> and
  \<^verbatim>\<open>getLegacyProjectURL\<close>, none of which is available.
\<close>

definition VersionDropdown ::
  "(branch list \<Rightarrow> branch_group list \<Rightarrow> js_error + 'select option) \<Rightarrow>
   string \<Rightarrow> branch list \<Rightarrow> branch_group list \<Rightarrow> string \<Rightarrow> js_error + 'select option" where
  "VersionDropdown body project branches groups pageSlug =
     (case filterRealmSdk project pageSlug branches groups of
        Inl e \<Rightarrow> Inl e
      | Inr (branches', groups') \<Rightarrow>
          if length branches' < 2 then Inr None else body branches' groups')"

section \<open>Properties of the TOCNode component\<close>

subsection \<open>Evaluating the active-node predicate\<close>

lemma isActiveTocNode_Nil [simp]: "isActiveTocNode a t [] \<longleftrightarrow> t = Some a"
  by (subst isActiveTocNode.simps) simp

lemma isActiveTocNode_Cons [simp]:
  "isActiveTocNode a t (c # cs) \<longleftrightarrow>
     t = Some a \<or> isActiveTocNode a (target c) (children c) \<or> isActiveTocNode a None cs"
  by (subst isActiveTocNode.simps, subst (3) isActiveTocNode.simps) auto

lemma descendants_children:
  "descendants n = concat (map (\<lambda>c. c # descendants c) (children n))"
  by (cases n) simp

lemma isActiveTocNode_iff:
  "isActiveTocNode a t cs \<longleftrightarrow>
     t = Some a \<or> (\<exists>d \<in> set (concat (map (\<lambda>c. c # descendants c) cs)). target d = Some a)"
proof (induction a t cs rule: isActiveTocNode.induct)
  case (1 a t cs)
  have below: "concat (map (\<lambda>c. c # descendants c) (children c)) = descendants c" for c
    by (cases c) simp
  have "(\<exists>c \<in> set cs. isActiveTocNode a (target c) (children c)) \<longleftrightarrow>
        (\<exists>c \<in> set cs. target c = Some a \<or> (\<exists>d \<in> set (descendants c). target d = Some a))"
    using "1.IH" by (simp add: below)
  then show ?case
    by (subst isActiveTocNode.simps) auto
qed

subsection \<open>Active and selected\<close>

text \<open>
  C1 (as amended). For every node and \<^verbatim>\<open>activeSection\<close>, the renderer's \<^verbatim>\<open>isActive\<close> is
  true if the node's \<^verbatim>\<open>slug\<close> equals \<^verbatim>\<open>activeSection\<close>, or if any descendant at any
  depth has its target equal to \<^verbatim>\<open>activeSection\<close>, and is false otherwise; the search
  covers the full subtree, not only direct children. The node's own comparison is on
  \<^verbatim>\<open>slug\<close>, which is what the renderer passes, not on \<^verbatim>\<open>target = slug || url\<close>.
\<close>

theorem isActive_slug_or_descendant_target:
  "isActive p \<longleftrightarrow>
     slug (node p) = Some (activeSection p) \<or>
     (\<exists>d \<in> set (descendants (node p)). target d = Some (activeSection p))"
  unfolding isActive_def isActiveTocNode_iff descendants_children [of "node p"] ..

text \<open>
  On a node that has a non-empty \<^verbatim>\<open>slug\<close> the target is the slug, and the two readings
  agree.
\<close>

lemma target_slug: "truthy (slug n) \<Longrightarrow> target n = slug n"
  by (simp add: target_def js_or_def)

text \<open>An instance: the match sits two levels below the node.\<close>

theorem isActive_slug_or_descendant_target_witness:
  "isActive \<lparr>activeSection = ''a/b/c'', handleClick = (), level = None,
     node = Node ''A'' (Some ''a'') None
       [Node ''B'' (Some ''a/b'') None [Node ''C'' (Some ''a/b/c'') None [] None] None] None\<rparr>"
  using isActive_slug_or_descendant_target
    [of "\<lparr>activeSection = ''a/b/c'', handleClick = (), level = None,
     node = Node ''A'' (Some ''a'') None
       [Node ''B'' (Some ''a/b'') None [Node ''C'' (Some ''a/b/c'') None [] None] None] None\<rparr>"]
  by (simp add: target_def js_or_def truthy_def)

text \<open>
  C1 as stated fails on a node that has a \<^verbatim>\<open>url\<close> and no \<^verbatim>\<open>slug\<close>: its target equals
  \<^verbatim>\<open>activeSection\<close>, yet \<^verbatim>\<open>isActive\<close> is false.
\<close>

theorem isActive_target_counterexample:
  "target (Node ''Atlas'' None (Some ''https://cloud.example'') [] None)
     = Some ''https://cloud.example'' \<and>
   \<not> isActive \<lparr>activeSection = ''https://cloud.example'', handleClick = (), level = None,
       node = Node ''Atlas'' None (Some ''https://cloud.example'') [] None\<rparr>"
  by (simp add: isActive_def target_def js_or_def truthy_def)

text \<open>
  C6 (as amended). For every node and \<^verbatim>\<open>activeSection\<close>, \<^verbatim>\<open>isSelected\<close> is true if and
  only if the node's \<^verbatim>\<open>slug\<close> equals \<^verbatim>\<open>activeSection\<close> exactly, with no descendant
  search; in particular, for the tree \<^verbatim>\<open>{target:"a", children:[{target:"a/b"}]}\<close> with
  \<^verbatim>\<open>activeSection\<close> \<^verbatim>\<open>"a/b"\<close>, the root has \<^verbatim>\<open>isActive=true\<close> and \<^verbatim>\<open>isSelected=false\<close>
  while the child has \<^verbatim>\<open>isActive=true\<close> and \<^verbatim>\<open>isSelected=true\<close>. The child's props
  are those the root's render gives it.
\<close>

theorem isSelected_slug_exact:
  "(isSelected p \<longleftrightarrow> slug (node p) = Some (activeSection p)) \<and>
   (p = \<lparr>activeSection = ''a/b'', handleClick = cb, level = lv,
          node = Node t (Some ''a'') None [Node t' (Some ''a/b'') None [] None] None\<rparr> \<longrightarrow>
      isActive p \<and> \<not> isSelected p \<and>
      isActive (snd (childElement p (Node t' (Some ''a/b'') None [] None))) \<and>
      isSelected (snd (childElement p (Node t' (Some ''a/b'') None [] None))))"
  by (simp add: isSelected_def isSelectedTocNode_def isActive_def childElement_def
      target_def js_or_def truthy_def)

theorem isSelected_slug_exact_witness:
  "isActive \<lparr>activeSection = ''a/b'', handleClick = (), level = None,
      node = Node ''A'' (Some ''a'') None [Node ''B'' (Some ''a/b'') None [] None] None\<rparr> \<and>
   \<not> isSelected \<lparr>activeSection = ''a/b'', handleClick = (), level = None,
      node = Node ''A'' (Some ''a'') None [Node ''B'' (Some ''a/b'') None [] None] None\<rparr> \<and>
   isActive \<lparr>activeSection = ''a/b'', handleClick = (), level = Some 2,
      node = Node ''B'' (Some ''a/b'') None [] None\<rparr> \<and>
   isSelected \<lparr>activeSection = ''a/b'', handleClick = (), level = Some 2,
      node = Node ''B'' (Some ''a/b'') None [] None\<rparr>"
  using isSelected_slug_exact
    [of "\<lparr>activeSection = ''a/b'', handleClick = (), level = None,
      node = Node ''A'' (Some ''a'') None [Node ''B'' (Some ''a/b'') None [] None] None\<rparr>"
      "()" None "''A''" "''B''"]
  by (simp add: childElement_def levelOf_def BASE_NODE_LEVEL_def)

text \<open>
  C6 as stated fails on the same kind of node: the target (the \<^verbatim>\<open>url\<close>) equals
  \<^verbatim>\<open>activeSection\<close> exactly, yet \<^verbatim>\<open>isSelected\<close> is false.
\<close>

theorem isSelected_target_counterexample:
  "target (Node ''Support'' None (Some ''https://support.example'') [] None)
     = Some ''https://support.example'' \<and>
   \<not> isSelected \<lparr>activeSection = ''https://support.example'', handleClick = (), level = None,
       node = Node ''Support'' None (Some ''https://support.example'') [] None\<rparr>"
  by (simp add: isSelected_def isSelectedTocNode_def target_def js_or_def truthy_def)

subsection \<open>Clicks\<close>

text \<open>
  C2. For every drawer node with non-empty children, a user click flips the local
  \<^verbatim>\<open>isOpen\<close> state and never triggers navigation or the \<^verbatim>\<open>onClick\<close> callback,
  regardless of whether the node is active: the state and the props are arbitrary, the
  click leaves the component no effect, in both versions of the component.
\<close>

theorem drawer_click_toggles_isOpen:
  assumes "isDrawer (node p)" and "hasChildren (node p)"
  shows "click (NodeLink p st) st = (st\<lparr>isOpen := \<not> isOpen st\<rparr>, []) \<and>
         click (NodeLink_part_000 p st) st = (st\<lparr>isOpen := \<not> isOpen st\<rparr>, [])"
  using assms by (simp add: NodeLink_def NodeLink_part_000_def Let_def)

theorem drawer_click_toggles_isOpen_witness:
  "isDrawer (Node ''SDKs'' None None [Node ''Swift'' (Some ''sdk/swift'') None [] None]
     (Some \<lparr>drawer = True, tocicon = False\<rparr>)) \<and>
   hasChildren (Node ''SDKs'' None None [Node ''Swift'' (Some ''sdk/swift'') None [] None]
     (Some \<lparr>drawer = True, tocicon = False\<rparr>)) \<and>
   click (NodeLink \<lparr>activeSection = ''sdk/swift'', handleClick = (), level = None,
       node = Node ''SDKs'' None None [Node ''Swift'' (Some ''sdk/swift'') None [] None]
         (Some \<lparr>drawer = True, tocicon = False\<rparr>)\<rparr>
       \<lparr>isHovered = False, isOpen = True, effectDeps = Some (True, Some ''sdk/swift'')\<rparr>)
     \<lparr>isHovered = False, isOpen = True, effectDeps = Some (True, Some ''sdk/swift'')\<rparr>
   = (\<lparr>isHovered = False, isOpen = False, effectDeps = Some (True, Some ''sdk/swift'')\<rparr>, [])"
  using drawer_click_toggles_isOpen
    [of "\<lparr>activeSection = ''sdk/swift'', handleClick = (), level = None,
       node = Node ''SDKs'' None None [Node ''Swift'' (Some ''sdk/swift'') None [] None]
         (Some \<lparr>drawer = True, tocicon = False\<rparr>)\<rparr>"
      "\<lparr>isHovered = False, isOpen = True, effectDeps = Some (True, Some ''sdk/swift'')\<rparr>"]
  by (simp add: isDrawer_def hasChildren_def)

text \<open>
  C3. For every non-drawer node, a user click triggers exactly one navigation to
  \<^verbatim>\<open>node.target\<close> and invokes the supplied \<^verbatim>\<open>onClick\<close> callback exactly once (the
  effects of the click are exactly these two, and the state is left as it is), and the
  rendered link is marked active exactly when \<^verbatim>\<open>isSelected\<close> is true, in both versions
  of the component.
\<close>

theorem link_click_navigates_once:
  assumes "\<not> isDrawer (node p)"
  shows "click (NodeLink p st) st = (st, [Invoke (handleClick p), Navigate (target (node p))]) \<and>
         (activeProp (NodeLink p st) \<longleftrightarrow> isSelected p) \<and>
         click (NodeLink_part_000 p st) st
           = (st, [Invoke (handleClick p), Navigate (target (node p))]) \<and>
         (activeProp (NodeLink_part_000 p st) \<longleftrightarrow> isSelected p)"
  using assms by (simp add: NodeLink_def NodeLink_part_000_def Let_def)

theorem link_click_navigates_once_witness:
  "\<not> isDrawer (Node ''Install'' (Some ''install'') None [] None) \<and>
   click (NodeLink \<lparr>activeSection = ''install'', handleClick = ''closeMenu'', level = Some 2,
       node = Node ''Install'' (Some ''install'') None [] None\<rparr>
       \<lparr>isHovered = False, isOpen = True, effectDeps = Some (True, None)\<rparr>)
     \<lparr>isHovered = False, isOpen = True, effectDeps = Some (True, None)\<rparr>
   = (\<lparr>isHovered = False, isOpen = True, effectDeps = Some (True, None)\<rparr>,
      [Invoke ''closeMenu'', Navigate (Some ''install'')]) \<and>
   activeProp (NodeLink \<lparr>activeSection = ''install'', handleClick = ''closeMenu'', level = Some 2,
       node = Node ''Install'' (Some ''install'') None [] None\<rparr>
       \<lparr>isHovered = False, isOpen = True, effectDeps = Some (True, None)\<rparr>)"
  using link_click_navigates_once
    [of "\<lparr>activeSection = ''install'', handleClick = ''closeMenu'', level = Some 2,
       node = Node ''Install'' (Some ''install'') None [] None\<rparr>"
      "\<lparr>isHovered = False, isOpen = True, effectDeps = Some (True, None)\<rparr>"]
  by (simp add: isDrawer_def isSelected_def isSelectedTocNode_def target_def js_or_def truthy_def)

subsection \<open>Open state\<close>

lemma click_effectDeps: "effectDeps (fst (click item st)) = effectDeps st"
  by (cases item) simp_all

lemma hover_effectDeps: "effectDeps (hover h item st) = effectDeps st"
  by (induction h item st rule: hover.induct) simp_all

lemma hover_isOpen: "isOpen (hover h item st) = isOpen st"
  by (induction h item st rule: hover.induct) simp_all

lemma click_link_isOpen:
  assumes "\<not> isDrawer (node p)" and "nl = NodeLink \<or> nl = NodeLink_part_000"
  shows "isOpen (fst (click (nl p st) st)) = isOpen st"
  using assms by (auto simp: NodeLink_def NodeLink_part_000_def Let_def split: if_splits)

lemma useEffect_same: "effectDeps st = Some (depsOf p) \<Longrightarrow> useEffect p st = st"
  by (simp add: useEffect_def)

lemma synced_mount: "synced (p, mount p)"
  by (simp add: synced_def mount_def useEffect_def useState_def)

lemma isOpen_mount: "isOpen (mount p) = isActive p"
  by (simp add: mount_def useEffect_def useState_def)

lemma synced_step:
  assumes "synced c" and "nl = NodeLink \<or> nl = NodeLink_part_000"
  shows "synced (step nl e c)"
proof -
  obtain p st where c: "c = (p, st)" by (cases c)
  from assms(1) c have deps: "effectDeps st = Some (depsOf p)"
    and op: "\<not> isDrawer (node p) \<Longrightarrow> isOpen st = isActive p"
    by (simp_all add: synced_def)
  show ?thesis
  proof (cases e)
    case Click
    let ?st = "fst (click (nl p st) st)"
    have kept: "effectDeps ?st = Some (depsOf p)"
      by (simp add: click_effectDeps deps)
    then have "rerender p ?st = ?st"
      by (simp add: rerender_def useEffect_same)
    moreover have "\<not> isDrawer (node p) \<Longrightarrow> isOpen ?st = isActive p"
      using click_link_isOpen [OF _ assms(2)] op by simp
    ultimately show ?thesis
      using Click c kept by (simp add: synced_def)
  next
    case MouseEnter
    then show ?thesis using c deps op
      by (simp add: synced_def rerender_def useEffect_same hover_effectDeps hover_isOpen)
  next
    case MouseLeave
    then show ?thesis using c deps op
      by (simp add: synced_def rerender_def useEffect_same hover_effectDeps hover_isOpen)
  next
    case (NewActiveSection a)
    then show ?thesis using c deps op
      by (auto simp: synced_def rerender_def useEffect_def depsOf_def split: if_splits)
  qed
qed

lemma synced_run:
  assumes "nl = NodeLink \<or> nl = NodeLink_part_000"
  shows "synced c \<Longrightarrow> synced (run nl es c)"
  by (induction es arbitrary: c) (simp_all add: synced_step [OF _ assms])

lemma synced_reset:
  assumes "synced (q, st)" and "a \<noteq> activeSection q"
  shows "isOpen (rerender (q\<lparr>activeSection := a\<rparr>) st) = isActive (q\<lparr>activeSection := a\<rparr>)"
  using assms
  by (auto simp: synced_def rerender_def useEffect_def depsOf_def split: if_splits)

text \<open>
  Between navigations the effect does not run again: a drawer the user has toggled stays
  as toggled through a render with the same props.
\<close>

lemma rerender_same_props: "synced (p, st) \<Longrightarrow> rerender p st = st"
  by (simp add: synced_def rerender_def useEffect_same)

text \<open>
  C4. For every node, the local \<^verbatim>\<open>isOpen\<close> state is initialized to the value of
  \<^verbatim>\<open>isActive\<close> at mount (the cell \<^verbatim>\<open>useState\<close> creates holds it, before any effect has
  run, and still holds it after the first effect), and whenever \<^verbatim>\<open>activeSection\<close> changes, \<^verbatim>\<open>isOpen\<close> is reset
  to the freshly computed \<^verbatim>\<open>isActive\<close>: after any sequence of clicks, hovers and earlier
  changes of \<^verbatim>\<open>activeSection\<close> on the mounted instance, the render that follows a new,
  different \<^verbatim>\<open>activeSection\<close> leaves \<^verbatim>\<open>isOpen\<close> equal to \<^verbatim>\<open>isActive\<close> of the new
  props, in both versions of the component.
\<close>

theorem isOpen_follows_isActive:
  "isOpen (useState p) = isActive p \<and>
   isOpen (mount p) = isActive p \<and>
   (run NodeLink es (p, mount p) = (q, st) \<and> a \<noteq> activeSection q \<longrightarrow>
      isOpen (rerender (q\<lparr>activeSection := a\<rparr>) st) = isActive (q\<lparr>activeSection := a\<rparr>)) \<and>
   (run NodeLink_part_000 es (p, mount p) = (q, st) \<and> a \<noteq> activeSection q \<longrightarrow>
      isOpen (rerender (q\<lparr>activeSection := a\<rparr>) st) = isActive (q\<lparr>activeSection := a\<rparr>))"
proof (intro conjI impI)
  show "isOpen (useState p) = isActive p" by (simp add: useState_def)
next
  show "isOpen (mount p) = isActive p" by (rule isOpen_mount)
next
  assume h: "run NodeLink es (p, mount p) = (q, st) \<and> a \<noteq> activeSection q"
  have "synced (run NodeLink es (p, mount p))"
    by (rule synced_run [OF _ synced_mount]) simp
  with h show "isOpen (rerender (q\<lparr>activeSection := a\<rparr>) st) = isActive (q\<lparr>activeSection := a\<rparr>)"
    by (simp add: synced_reset)
next
  assume h: "run NodeLink_part_000 es (p, mount p) = (q, st) \<and> a \<noteq> activeSection q"
  have "synced (run NodeLink_part_000 es (p, mount p))"
    by (rule synced_run [OF _ synced_mount]) simp
  with h show "isOpen (rerender (q\<lparr>activeSection := a\<rparr>) st) = isActive (q\<lparr>activeSection := a\<rparr>)"
    by (simp add: synced_reset)
qed

text \<open>
  An instance: a drawer that is active is created open; one that is not active mounts
  closed, a click opens it, and the next change of \<^verbatim>\<open>activeSection\<close> (to a page
  outside the drawer) closes it again.
\<close>

theorem isOpen_follows_isActive_witness:
  "isOpen (useState \<lparr>activeSection = ''sdk/swift'', handleClick = (), level = None,
        node = Node ''SDKs'' None None [Node ''Swift'' (Some ''sdk/swift'') None [] None]
          (Some \<lparr>drawer = True, tocicon = False\<rparr>)\<rparr>) = True \<and>
   isOpen (useState \<lparr>activeSection = ''intro'', handleClick = (), level = None,
        node = Node ''SDKs'' None None [Node ''Swift'' (Some ''sdk/swift'') None [] None]
          (Some \<lparr>drawer = True, tocicon = False\<rparr>)\<rparr>) = False \<and>
   run NodeLink [Click]
     (\<lparr>activeSection = ''intro'', handleClick = (), level = None,
        node = Node ''SDKs'' None None [Node ''Swift'' (Some ''sdk/swift'') None [] None]
          (Some \<lparr>drawer = True, tocicon = False\<rparr>)\<rparr>,
      mount \<lparr>activeSection = ''intro'', handleClick = (), level = None,
        node = Node ''SDKs'' None None [Node ''Swift'' (Some ''sdk/swift'') None [] None]
          (Some \<lparr>drawer = True, tocicon = False\<rparr>)\<rparr>)
   = (\<lparr>activeSection = ''intro'', handleClick = (), level = None,
        node = Node ''SDKs'' None None [Node ''Swift'' (Some ''sdk/swift'') None [] None]
          (Some \<lparr>drawer = True, tocicon = False\<rparr>)\<rparr>,
      \<lparr>isHovered = False, isOpen = True, effectDeps = Some (False, Some ''intro'')\<rparr>) \<and>
   ''faq'' \<noteq> ''intro'' \<and>
   isOpen (rerender \<lparr>activeSection = ''faq'', handleClick = (), level = None,
        node = Node ''SDKs'' None None [Node ''Swift'' (Some ''sdk/swift'') None [] None]
          (Some \<lparr>drawer = True, tocicon = False\<rparr>)\<rparr>
      \<lparr>isHovered = False, isOpen = True, effectDeps = Some (False, Some ''intro'')\<rparr>) = False"
  using isOpen_follows_isActive
    [of "\<lparr>activeSection = ''sdk/swift'', handleClick = (), level = None,
        node = Node ''SDKs'' None None [Node ''Swift'' (Some ''sdk/swift'') None [] None]
          (Some \<lparr>drawer = True, tocicon = False\<rparr>)\<rparr>"]
    isOpen_follows_isActive
    [of "\<lparr>activeSection = ''intro'', handleClick = (), level = None,
        node = Node ''SDKs'' None None [Node ''Swift'' (Some ''sdk/swift'') None [] None]
          (Some \<lparr>drawer = True, tocicon = False\<rparr>)\<rparr>"
      "[Click]"
      "\<lparr>activeSection = ''intro'', handleClick = (), level = None,
        node = Node ''SDKs'' None None [Node ''Swift'' (Some ''sdk/swift'') None [] None]
          (Some \<lparr>drawer = True, tocicon = False\<rparr>)\<rparr>"
      "\<lparr>isHovered = False, isOpen = True, effectDeps = Some (False, Some ''intro'')\<rparr>"
      "''faq''"]
  by (simp add: mount_def useState_def useEffect_def rerender_def depsOf_def isActive_def
      NodeLink_def isDrawer_def isTocIcon_def hasChildren_def target_def js_or_def truthy_def)

subsection \<open>Children\<close>

text \<open>
  C5. For every node, the children subtrees are rendered if and only if \<^verbatim>\<open>isOpen\<close> is
  true, and each child is rendered recursively (as a \<^verbatim>\<open>TOCNode\<close> element of its own)
  with depth \<^verbatim>\<open>level + 1\<close> and the same \<^verbatim>\<open>activeSection\<close> and \<^verbatim>\<open>onClick\<close> passed through
  unchanged, one element per child in the children's order; when \<^verbatim>\<open>isOpen\<close> is false no
  child is rendered. Both versions of the component.
\<close>

theorem children_rendered_iff_isOpen:
  "(childNodes (TOCNode p st) \<noteq> None \<longleftrightarrow> isOpen st) \<and>
   (childNodes (TOCNode_part_000 p st) \<noteq> None \<longleftrightarrow> isOpen st) \<and>
   (isOpen st \<longrightarrow>
      childNodes (TOCNode p st) = Some (map (childElement p) (children (node p))) \<and>
      childNodes (TOCNode_part_000 p st) = Some (map (childElement p) (children (node p)))) \<and>
   (\<forall>c. activeSection (snd (childElement p c)) = activeSection p \<and>
        handleClick (snd (childElement p c)) = handleClick p \<and>
        levelOf (snd (childElement p c)) = levelOf p + 1 \<and>
        node (snd (childElement p c)) = c)"
  by (simp add: TOCNode_def TOCNode_part_000_def childElement_def levelOf_def)

theorem children_rendered_iff_isOpen_witness:
  "childNodes (TOCNode \<lparr>activeSection = ''a/b'', handleClick = ''closeMenu'', level = None,
       node = Node ''A'' (Some ''a'') None [Node ''B'' (Some ''a/b'') None [] None] None\<rparr>
     \<lparr>isHovered = False, isOpen = True, effectDeps = Some (True, None)\<rparr>)
   = Some [(Some ''a/b'',
        \<lparr>activeSection = ''a/b'', handleClick = ''closeMenu'', level = Some 2,
         node = Node ''B'' (Some ''a/b'') None [] None\<rparr>)] \<and>
   childNodes (TOCNode \<lparr>activeSection = ''a/b'', handleClick = ''closeMenu'', level = None,
       node = Node ''A'' (Some ''a'') None [Node ''B'' (Some ''a/b'') None [] None] None\<rparr>
     \<lparr>isHovered = False, isOpen = False, effectDeps = Some (True, None)\<rparr>) = None"
  using children_rendered_iff_isOpen
    [of "\<lparr>activeSection = ''a/b'', handleClick = ''closeMenu'', level = None,
       node = Node ''A'' (Some ''a'') None [Node ''B'' (Some ''a/b'') None [] None] None\<rparr>"
      "\<lparr>isHovered = False, isOpen = True, effectDeps = Some (True, None)\<rparr>"]
    children_rendered_iff_isOpen
    [of "\<lparr>activeSection = ''a/b'', handleClick = ''closeMenu'', level = None,
       node = Node ''A'' (Some ''a'') None [Node ''B'' (Some ''a/b'') None [] None] None\<rparr>"
      "\<lparr>isHovered = False, isOpen = False, effectDeps = Some (True, None)\<rparr>"]
  by (simp add: childElement_def levelOf_def BASE_NODE_LEVEL_def js_or_def truthy_def)

section \<open>Properties of the search-term highlighting\<close>

subsection \<open>The escaped pattern is literal\<close>




lemma literalPattern_escaped:
  "syntaxCharacter d \<Longrightarrow> literalPattern (backslash # d # cs) = map_option ((#) d) (literalPattern cs)"
  by simp


subsection \<open>The matches of a literal pattern\<close>









subsection \<open>Case folding\<close>




subsection \<open>The result of the highlighting\<close>


lemma replaced_case:
  "(\<lambda>s. case s of Matched m \<Rightarrow> f m | Unmatched d \<Rightarrow> [d]) = replaced f"
  by (rule ext) (simp split: segment.split)







section \<open>Properties of the version dropdown\<close>

subsection \<open>Version labels\<close>





subsection \<open>The guard\<close>

lemma filterRealmSdk_shrinks:
  "filterRealmSdk project pageSlug branches groups = Inr (branches', groups') \<Longrightarrow>
   length branches' \<le> length branches"
  by (auto simp: filterRealmSdk_def Let_def intro: le_SucI split: if_splits list.splits)

text \<open>
  Where the filtering returns and leaves fewer than 2 branches, the component returns
  \<^verbatim>\<open>null\<close>: nothing is rendered, and what follows the guard (the select control and
  its \<^verbatim>\<open>navigate\<close> handler) is not reached, whatever it is.
\<close>

lemma VersionDropdown_null:
  assumes "filterRealmSdk project pageSlug branches groups = Inr (branches', groups')"
    and "length branches' < 2"
  shows "VersionDropdown body project branches groups pageSlug = Inr None"
  using assms by (simp add: VersionDropdown_def)

text \<open>
  On a realm SDK page none of whose groups matches the slug, the filtering throws as soon
  as there is a branch: \<^verbatim>\<open>groups[0]\<close> is \<^verbatim>\<open>undefined\<close>, and the \<^verbatim>\<open>if (groups)\<close>
  meant to guard it is true of the empty array.
\<close>

lemma VersionDropdown_throws_without_group:
  assumes "str_includes pageSlug ''sdk/''"
    and "filter (\<lambda>g. str_includes pageSlug (sharedSlugPrefix g)) groups = []"
    and "branches \<noteq> []"
  shows "VersionDropdown body ''realm'' branches groups pageSlug = Inl TypeError"
  using assms by (cases branches) (simp_all add: VersionDropdown_def filterRealmSdk_def)

text \<open>
  C9. For every input with fewer than 2 branches (after any realm/sdk group filtering),
  the \<^verbatim>\<open>VersionDropdown\<close> component renders nothing: it returns \<^verbatim>\<open>null\<close> without
  producing a select control or invoking navigation. The code breaks this: with the
  single branch \<^verbatim>\<open>master\<close>, no group, the project \<^verbatim>\<open>realm\<close> and the slug
  \<^verbatim>\<open>sdk/swift\<close>, the component does not return \<^verbatim>\<open>null\<close>; the filtering throws a
  \<^verbatim>\<open>TypeError\<close> and the guard on the number of branches is never reached.
\<close>

theorem VersionDropdown_filter_throws:
  "VersionDropdown body ''realm''
     [\<lparr>gitBranchName = ''master'', versionSelectorLabel = None, urlSlug = None, active = True\<rparr>]
     [] ''sdk/swift'' = Inl TypeError"
  by (simp add: VersionDropdown_def filterRealmSdk_def)

end
